theory Spec2Isabelle
  imports Main "HOL-Library.Word"
begin

section \<open>Data model of package tls (pkg/tls/tlsmanager.go)\<close>

text \<open>
  The manager of TLS options and certificate stores, embedded function by function.
  Go structs are records, Go maps are partial functions (or association lists where the
  code ranges over them), a pair (value, error) returned by a Go function is a sum
  \<open>error + value\<close> unless the code returns both, and the functions the file calls in other
  packages are the fields of the record \<open>externals\<close>.
\<close>

text \<open>certificate.CertificateType (pkg/tls/certificate/certificate_type.go).\<close>

datatype CertificateType = RSA | EC

type_synonym FileOrContent = string

datatype error =
    External string
  | UnknownTLSOptions string
  | InvalidCertificatesIn FileOrContent
  | InvalidCertificatesContent
  | InvalidClientAuthType string
  | UnknownClientAuthType string
  | InvalidCipherSuite string
  | InvalidCurveID string
  | FailedCertFileContent error
  | FailedKeyFileContent error
  | FailedX509KeyPair error
  | StrictSNINoCertificate string

text \<open>
  A tls.Certificate of the standard library is opaque here: the chain and the key it was
  loaded from.
\<close>

datatype tls_Certificate = TLSCertificate (tc_Certificate: string) (tc_PrivateKey: string)

text \<open>tls.ClientAuthType, in the order of the standard library; the zero value is first.\<close>

datatype tls_ClientAuthType =
    NoClientCert
  | RequestClientCert
  | RequireAnyClientCert
  | VerifyClientCertIfGiven
  | RequireAndVerifyClientCert

text \<open>
  The fields of tls.Config that the file writes. A nil slice is \<open>None\<close> where the code
  tells nil from empty (CipherSuites, CurvePreferences); ClientCAs is the pool of the PEM
  blocks appended to it, \<open>None\<close> for a nil pool.
\<close>

record tls_Config =
  conf_NextProtos :: "string list"
  conf_ClientCAs :: "string list option"
  conf_ClientAuth :: tls_ClientAuthType
  conf_PreferServerCipherSuites :: bool
  conf_MinVersion :: "16 word"
  conf_MaxVersion :: "16 word"
  conf_CipherSuites :: "16 word list option"
  conf_CurvePreferences :: "16 word list option"

text \<open>The zero value \<open>&tls.Config{}\<close>.\<close>

definition zero_Config :: tls_Config where
  "zero_Config =
    \<lparr>conf_NextProtos = [], conf_ClientCAs = None, conf_ClientAuth = NoClientCert,
     conf_PreferServerCipherSuites = False, conf_MinVersion = 0, conf_MaxVersion = 0,
     conf_CipherSuites = None, conf_CurvePreferences = None\<rparr>"

text \<open>The fields of tls.ClientHelloInfo that the file and its callees read.\<close>

record ClientHelloInfo =
  hello_ServerName :: string
  hello_CipherSuites :: "16 word list"

section \<open>Cipher adaptation: the GetConfigForClient closure of Get\<close>

text \<open>
  The three identifiers of crypto/tls that the file compares with, at their values in
  the standard library (the IANA registry's).
\<close>

definition TLS_CHACHA20_POLY1305_SHA256 :: "16 word" where
  "TLS_CHACHA20_POLY1305_SHA256 = 0x1303"

definition TLS_ECDHE_RSA_WITH_CHACHA20_POLY1305 :: "16 word" where
  "TLS_ECDHE_RSA_WITH_CHACHA20_POLY1305 = 0xCCA8"

definition TLS_ECDHE_ECDSA_WITH_CHACHA20_POLY1305 :: "16 word" where
  "TLS_ECDHE_ECDSA_WITH_CHACHA20_POLY1305 = 0xCCA9"

definition isChaChaCipherSuite :: "16 word \<Rightarrow> bool" where
  "isChaChaCipherSuite cipherSuite =
    (cipherSuite = TLS_CHACHA20_POLY1305_SHA256 \<or>
     cipherSuite = TLS_ECDHE_ECDSA_WITH_CHACHA20_POLY1305 \<or>
     cipherSuite = TLS_ECDHE_RSA_WITH_CHACHA20_POLY1305)"

text \<open>
  Lines 156-162: the loop that collects the configured ChaCha suites; the second
  argument is \<open>forceCiphers\<close> so far.
\<close>

fun forceCiphersLoop :: "16 word list \<Rightarrow> 16 word list \<Rightarrow> 16 word list" where
  "forceCiphersLoop [] forceCiphers = forceCiphers"
| "forceCiphersLoop (cipherSuite # rest) forceCiphers =
    (if cipherSuite = TLS_CHACHA20_POLY1305_SHA256 \<or>
        cipherSuite = TLS_ECDHE_ECDSA_WITH_CHACHA20_POLY1305 \<or>
        cipherSuite = TLS_ECDHE_RSA_WITH_CHACHA20_POLY1305
     then forceCiphersLoop rest (forceCiphers @ [cipherSuite])
     else forceCiphersLoop rest forceCiphers)"

text \<open>
  Lines 166-172: the inner loop over \<open>forceCiphers\<close> for one configured suite. The
  \<open>append\<close> stands inside this loop, after the comparison: it runs once for every forced
  suite passed before a match (\<open>continue newCipherSuitesLoop\<close>) or before the end of
  \<open>forceCiphers\<close>. The third argument is \<open>config.CipherSuites\<close> so far. The slice
  \<open>forceCiphers\<close> that is ranged over keeps its length, so the appends to
  \<open>config.CipherSuites\<close>, which starts as the same slice, do not change what is ranged over.
\<close>

fun forcedLoop :: "16 word \<Rightarrow> 16 word list \<Rightarrow> 16 word list \<Rightarrow> 16 word list" where
  "forcedLoop cipherSuite [] acc = acc"
| "forcedLoop cipherSuite (forcedCipherSuite # rest) acc =
    (if forcedCipherSuite = cipherSuite then acc
     else forcedLoop cipherSuite rest (acc @ [cipherSuite]))"

text \<open>Lines 164-173: the outer loop, labelled \<open>newCipherSuitesLoop\<close>.\<close>

fun newCipherSuitesLoop :: "16 word list \<Rightarrow> 16 word list \<Rightarrow> 16 word list \<Rightarrow> 16 word list" where
  "newCipherSuitesLoop [] forceCiphers acc = acc"
| "newCipherSuitesLoop (cipherSuite # rest) forceCiphers acc =
    newCipherSuitesLoop rest forceCiphers (forcedLoop cipherSuite forceCiphers acc)"

text \<open>
  Lines 147-179: the closure assigned last to \<open>tlsConfig.GetConfigForClient\<close> (the
  assignment of lines 113-145 is overwritten by it). \<open>tlsConfig\<close> is the configuration the
  closure captured; the clone is the same value. The error it returns is always nil.
\<close>

definition GetConfigForClient :: "tls_Config \<Rightarrow> ClientHelloInfo \<Rightarrow> tls_Config" where
  "GetConfigForClient tlsConfig clientHello =
    (case conf_CipherSuites tlsConfig of
       None \<Rightarrow> tlsConfig
     | Some configured \<Rightarrow>
        (if 0 < length configured then
           (case hello_CipherSuites clientHello of
              [] \<Rightarrow> tlsConfig
            | first # others \<Rightarrow>
               (if isChaChaCipherSuite first then
                  (let forceCiphers = forceCiphersLoop configured []
                   in tlsConfig\<lparr>conf_CipherSuites :=
                        Some (newCipherSuitesLoop configured forceCiphers forceCiphers)\<rparr>)
                else tlsConfig))
         else tlsConfig))"

section \<open>Options, stores and the functions of other packages\<close>

text \<open>
  Options and its ClientAuth (declared in pkg/tls/tls.go), with the fields the file reads.
  CipherSuites and CurvePreferences are \<open>None\<close> for a nil slice.
\<close>

record ClientAuth =
  CAFiles :: "FileOrContent list"
  ClientAuthType :: string

record Options =
  MinVersion :: string
  MaxVersion :: string
  CipherSuites :: "string list option"
  CurvePreferences :: "string list option"
  ClientAuth :: ClientAuth
  SniStrict :: bool

text \<open>\<open>DefaultTLSOptions = Options{}\<close> (line 20).\<close>

definition DefaultTLSOptions :: Options where
  "DefaultTLSOptions =
    \<lparr>MinVersion = [], MaxVersion = [], CipherSuites = None, CurvePreferences = None,
     ClientAuth = \<lparr>CAFiles = [], ClientAuthType = []\<rparr>, SniStrict = False\<rparr>"

text \<open>
  The configured certificate (a pair of sources), the configured store with its two
  ways of naming default certificates, and a certificate with the stores it goes to.
\<close>

record Certificate =
  CertFile :: FileOrContent
  KeyFile :: FileOrContent

record Store =
  Store_DefaultCertificates :: "Certificate list"
  Store_DefaultCertificate :: "Certificate option"

record CertAndStores =
  cas_Certificate :: Certificate
  cas_Stores :: "string list"

text \<open>
  Modelled from the spec: the type certificateKey is declared outside these files; the
  spec gives the composite key \<open>{hostPattern, sourceLabel}\<close>.
\<close>

type_synonym certificateKey = "string \<times> string"

text \<open>
  The CertificateStore as the file uses it: the dynamic certificates (what
  \<open>DynamicCerts.Set\<close> stored last) and the default certificates.
\<close>

record CertificateStore =
  DynamicCerts :: "(certificateKey \<times> tls_Certificate) list"
  DefaultCertificates :: "tls_Certificate list"

type_synonym storesCertificates = "(string \<times> (certificateKey \<times> tls_Certificate) list) list"

text \<open>
  What the file calls and does not define, taken as parameters: the methods
  \<open>Read\<close> and \<open>IsPath\<close> of a FileOrContent, \<open>AppendCertsFromPEM\<close> (whether the
  data held a certificate), \<open>tls.X509KeyPair\<close>, \<open>generate.DefaultCertificate\<close>,
  \<open>certificate.GetCertificateType\<close>, \<open>getCertTypeForClientHello\<close>,
  \<open>types.CanonicalDomain\<close>, the store's \<open>GetBestCertificate\<close>, the certificate's
  \<open>AppendCertificate\<close> (it returns the map it updated and its error), and the four lookup
  tables of the package. The same call gives the same answer: the provider of default
  certificates is a function of the algorithm asked for.
\<close>

record externals =
  Read :: "FileOrContent \<Rightarrow> error + string"
  IsPath :: "FileOrContent \<Rightarrow> bool"
  AppendCertsFromPEM :: "string \<Rightarrow> bool"
  X509KeyPair :: "string \<Rightarrow> string \<Rightarrow> error + tls_Certificate"
  generate_DefaultCertificate :: "CertificateType \<Rightarrow> error + tls_Certificate"
  GetCertificateType :: "tls_Certificate \<Rightarrow> error + CertificateType"
  getCertTypeForClientHello :: "ClientHelloInfo \<Rightarrow> CertificateType"
  CanonicalDomain :: "string \<Rightarrow> string"
  GetBestCertificate :: "CertificateStore \<Rightarrow> ClientHelloInfo \<Rightarrow> tls_Certificate option"
  AppendCertificate ::
    "Certificate \<Rightarrow> storesCertificates \<Rightarrow> string \<Rightarrow> storesCertificates \<times> error option"
  MinVersion_table :: "string \<rightharpoonup> 16 word"
  MaxVersion_table :: "string \<rightharpoonup> 16 word"
  CipherSuites_table :: "string \<rightharpoonup> 16 word"
  CurveIDs_table :: "string \<rightharpoonup> 16 word"

text \<open>The Manager without its lock: the model runs one call at a time.\<close>

record Manager =
  storesConfig :: "(string \<times> Store) list"
  stores :: "string \<rightharpoonup> CertificateStore"
  configs :: "string \<rightharpoonup> Options"
  certs :: "CertAndStores list"
  TLSAlpnGetter :: "(string \<Rightarrow> error + tls_Certificate option) option"

definition NewManager :: Manager where
  "NewManager =
    \<lparr>storesConfig = [], stores = Map.empty,
     configs = [''default'' \<mapsto> DefaultTLSOptions], certs = [], TLSAlpnGetter = None\<rparr>"

section \<open>buildTLSConfig\<close>

text \<open>Lines 319-331: the loop over the CA files; the third argument is the pool so far.\<close>

fun caFilesLoop :: "externals \<Rightarrow> FileOrContent list \<Rightarrow> string list \<Rightarrow> error + string list" where
  "caFilesLoop x [] pool = Inr pool"
| "caFilesLoop x (caFile # rest) pool =
    (case Read x caFile of
       Inl err \<Rightarrow> Inl err
     | Inr data \<Rightarrow>
        (if AppendCertsFromPEM x data then caFilesLoop x rest (pool @ [data])
         else if IsPath x caFile then Inl (InvalidCertificatesIn caFile)
         else Inl InvalidCertificatesContent))"

text \<open>Lines 317-334.\<close>

definition clientCAsStage :: "externals \<Rightarrow> Options \<Rightarrow> tls_Config \<Rightarrow> error + tls_Config" where
  "clientCAsStage x tlsOption conf =
    (if 0 < length (CAFiles (ClientAuth tlsOption)) then
       (case caFilesLoop x (CAFiles (ClientAuth tlsOption)) [] of
          Inl err \<Rightarrow> Inl err
        | Inr pool \<Rightarrow>
           Inr (conf\<lparr>conf_ClientCAs := Some pool, conf_ClientAuth := RequireAndVerifyClientCert\<rparr>))
     else Inr conf)"

text \<open>Lines 343-356: the switch on the policy string.\<close>

definition clientAuthSwitch :: "string \<Rightarrow> error + tls_ClientAuthType" where
  "clientAuthSwitch clientAuthType =
    (if clientAuthType = ''NoClientCert'' then Inr NoClientCert
     else if clientAuthType = ''RequestClientCert'' then Inr RequestClientCert
     else if clientAuthType = ''RequireAnyClientCert'' then Inr RequireAnyClientCert
     else if clientAuthType = ''VerifyClientCertIfGiven'' then Inr VerifyClientCertIfGiven
     else if clientAuthType = ''RequireAndVerifyClientCert'' then Inr RequireAndVerifyClientCert
     else Inl (UnknownClientAuthType clientAuthType))"

text \<open>Lines 336-357.\<close>

definition clientAuthStage :: "Options \<Rightarrow> tls_Config \<Rightarrow> error + tls_Config" where
  "clientAuthStage tlsOption conf =
    (let clientAuthType = ClientAuthType (ClientAuth tlsOption) in
     if 0 < length clientAuthType then
       (if conf_ClientCAs conf = None \<and>
           (clientAuthType = ''VerifyClientCertIfGiven'' \<or>
            clientAuthType = ''RequireAndVerifyClientCert'')
        then Inl (InvalidClientAuthType clientAuthType)
        else (case clientAuthSwitch clientAuthType of
                Inl err \<Rightarrow> Inl err
              | Inr policy \<Rightarrow> Inr (conf\<lparr>conf_ClientAuth := policy\<rparr>)))
     else Inr conf)"

text \<open>Lines 359-369: the two version bounds; an unknown identifier changes nothing.\<close>

definition versionStage :: "externals \<Rightarrow> Options \<Rightarrow> tls_Config \<Rightarrow> tls_Config" where
  "versionStage x tlsOption conf =
    (let conf1 =
       (case MinVersion_table x (MinVersion tlsOption) of
          Some minConst \<Rightarrow> conf\<lparr>conf_PreferServerCipherSuites := True, conf_MinVersion := minConst\<rparr>
        | None \<Rightarrow> conf)
     in (case MaxVersion_table x (MaxVersion tlsOption) of
           Some maxConst \<Rightarrow> conf1\<lparr>conf_PreferServerCipherSuites := True, conf_MaxVersion := maxConst\<rparr>
         | None \<Rightarrow> conf1))"

text \<open>Lines 375-382: the loop over the cipher names; the third argument is the list so far.\<close>

fun cipherSuitesLoop :: "externals \<Rightarrow> string list \<Rightarrow> 16 word list \<Rightarrow> error + 16 word list" where
  "cipherSuitesLoop x [] acc = Inr acc"
| "cipherSuitesLoop x (cipher # rest) acc =
    (case CipherSuites_table x cipher of
       Some cipherConst \<Rightarrow> cipherSuitesLoop x rest (acc @ [cipherConst])
     | None \<Rightarrow> Inl (InvalidCipherSuite cipher))"

text \<open>Lines 372-383.\<close>

definition cipherSuitesStage :: "externals \<Rightarrow> Options \<Rightarrow> tls_Config \<Rightarrow> error + tls_Config" where
  "cipherSuitesStage x tlsOption conf =
    (case CipherSuites tlsOption of
       None \<Rightarrow> Inr conf
     | Some names \<Rightarrow>
        (case cipherSuitesLoop x names [] of
           Inl err \<Rightarrow> Inl err
         | Inr suites \<Rightarrow> Inr (conf\<lparr>conf_CipherSuites := Some suites\<rparr>)))"

text \<open>Lines 389-396 and 386-397: the same for the curves.\<close>

fun curvePreferencesLoop :: "externals \<Rightarrow> string list \<Rightarrow> 16 word list \<Rightarrow> error + 16 word list" where
  "curvePreferencesLoop x [] acc = Inr acc"
| "curvePreferencesLoop x (curve # rest) acc =
    (case CurveIDs_table x curve of
       Some curveID \<Rightarrow> curvePreferencesLoop x rest (acc @ [curveID])
     | None \<Rightarrow> Inl (InvalidCurveID curve))"

definition curvePreferencesStage :: "externals \<Rightarrow> Options \<Rightarrow> tls_Config \<Rightarrow> error + tls_Config" where
  "curvePreferencesStage x tlsOption conf =
    (case CurvePreferences tlsOption of
       None \<Rightarrow> Inr conf
     | Some names \<Rightarrow>
        (case curvePreferencesLoop x names [] of
           Inl err \<Rightarrow> Inl err
         | Inr curves \<Rightarrow> Inr (conf\<lparr>conf_CurvePreferences := Some curves\<rparr>)))"

text \<open>
  Lines 311-400. \<open>tlsalpn01.ACMETLS1Protocol\<close> is the string "acme-tls/1". Every
  \<open>return nil, err\<close> of the source is an \<open>Inl\<close> here.
\<close>

definition buildTLSConfig :: "externals \<Rightarrow> Options \<Rightarrow> error + tls_Config" where
  "buildTLSConfig x tlsOption =
    (case clientCAsStage x tlsOption
            (zero_Config\<lparr>conf_NextProtos := [''h2'', ''http/1.1'', ''acme-tls/1'']\<rparr>) of
       Inl err \<Rightarrow> Inl err
     | Inr conf1 \<Rightarrow>
        (case clientAuthStage tlsOption conf1 of
           Inl err \<Rightarrow> Inl err
         | Inr conf2 \<Rightarrow>
            (case cipherSuitesStage x tlsOption (versionStage x tlsOption conf2) of
               Inl err \<Rightarrow> Inl err
             | Inr conf3 \<Rightarrow> curvePreferencesStage x tlsOption conf3)))"

section \<open>buildCertificateStore\<close>

text \<open>Lines 402-418; the three failures wrap the error they were given.\<close>

definition buildDefaultCertificate :: "externals \<Rightarrow> Certificate \<Rightarrow> error + tls_Certificate" where
  "buildDefaultCertificate x defaultCertificate =
    (case Read x (CertFile defaultCertificate) of
       Inl err \<Rightarrow> Inl (FailedCertFileContent err)
     | Inr certFile \<Rightarrow>
        (case Read x (KeyFile defaultCertificate) of
           Inl err \<Rightarrow> Inl (FailedKeyFileContent err)
         | Inr keyFile \<Rightarrow>
            (case X509KeyPair x certFile keyFile of
               Inl err \<Rightarrow> Inl (FailedX509KeyPair err)
             | Inr cert \<Rightarrow> Inr cert)))"

text \<open>
  Lines 420-430: the certificates are built in the order of the list; the third argument
  holds those built so far.
\<close>

fun buildDefaultCertificatesLoop ::
  "externals \<Rightarrow> Certificate list \<Rightarrow> tls_Certificate list \<Rightarrow> error + tls_Certificate list" where
  "buildDefaultCertificatesLoop x [] built = Inr built"
| "buildDefaultCertificatesLoop x (cert # rest) built =
    (case buildDefaultCertificate x cert of
       Inl err \<Rightarrow> Inl err
     | Inr builtCert \<Rightarrow> buildDefaultCertificatesLoop x rest (built @ [builtCert]))"

definition buildDefaultCertificates ::
  "externals \<Rightarrow> Certificate list \<Rightarrow> error + tls_Certificate list" where
  "buildDefaultCertificates x defaultCertificates =
    buildDefaultCertificatesLoop x defaultCertificates []"

text \<open>
  Lines 283-293: whether a default certificate is of type RSA; a certificate whose type
  cannot be detected is passed over.
\<close>

fun hasRSALoop :: "externals \<Rightarrow> tls_Certificate list \<Rightarrow> bool" where
  "hasRSALoop x [] = False"
| "hasRSALoop x (cert # rest) =
    (case GetCertificateType x cert of
       Inl err \<Rightarrow> hasRSALoop x rest
     | Inr certType \<Rightarrow> (if certType = RSA then True else hasRSALoop x rest))"

text \<open>
  Lines 281-307, after the default certificates are set. The function returns the
  store together with its error, as the source does (\<open>return certificateStore, err\<close>).
\<close>

definition ensureRSACertificate ::
  "externals \<Rightarrow> CertificateStore \<Rightarrow> bool \<Rightarrow> CertificateStore \<times> error option" where
  "ensureRSACertificate x certificateStore generated =
    (let hasRSACertificate =
       (if generated then True else hasRSALoop x (DefaultCertificates certificateStore))
     in if hasRSACertificate then (certificateStore, None)
        else (case generate_DefaultCertificate x RSA of
                Inl err \<Rightarrow> (certificateStore, Some err)
              | Inr cert \<Rightarrow>
                 (certificateStore\<lparr>DefaultCertificates :=
                    DefaultCertificates certificateStore @ [cert]\<rparr>, None)))"

text \<open>
  Lines 246-308. \<open>NewCertificateStore\<close> followed by the \<open>Set\<close> of an empty map is the
  store with no dynamic and no default certificate.
\<close>

definition buildCertificateStore :: "externals \<Rightarrow> Store \<Rightarrow> CertificateStore \<times> error option" where
  "buildCertificateStore x tlsStore =
    (let certificateStore = \<lparr>DynamicCerts = [], DefaultCertificates = []\<rparr> in
     if 0 < length (Store_DefaultCertificates tlsStore) then
       (case buildDefaultCertificates x (Store_DefaultCertificates tlsStore) of
          Inl err \<Rightarrow> (certificateStore, Some err)
        | Inr cert \<Rightarrow>
           ensureRSACertificate x (certificateStore\<lparr>DefaultCertificates := cert\<rparr>) False)
     else
       (case Store_DefaultCertificate tlsStore of
          Some defaultCertificate \<Rightarrow>
           (case buildDefaultCertificate x defaultCertificate of
              Inl err \<Rightarrow> (certificateStore, Some err)
            | Inr cert \<Rightarrow>
               ensureRSACertificate x (certificateStore\<lparr>DefaultCertificates := [cert]\<rparr>) False)
        | None \<Rightarrow>
           (case generate_DefaultCertificate x RSA of
              Inl err \<Rightarrow> (certificateStore, Some err)
            | Inr rsaCert \<Rightarrow>
               (case generate_DefaultCertificate x EC of
                  Inl err \<Rightarrow> (certificateStore, Some err)
                | Inr ecCert \<Rightarrow>
                   ensureRSACertificate x
                     (certificateStore\<lparr>DefaultCertificates := [rsaCert, ecCert]\<rparr>) True))))"

section \<open>The Manager: getStore, Get and its certificate hook, UpdateConfigs\<close>

text \<open>The zero value \<open>Store{}\<close>.\<close>

definition empty_Store :: Store where
  "empty_Store = \<lparr>Store_DefaultCertificates = [], Store_DefaultCertificate = None\<rparr>"

text \<open>
  Lines 230-236. The store an unknown name gets is what \<open>buildCertificateStore\<close> returns
  for \<open>Store{}\<close>, whatever its error (the source drops it); the Manager is returned with
  the store registered.
\<close>

definition getStore :: "externals \<Rightarrow> Manager \<Rightarrow> string \<Rightarrow> Manager \<times> CertificateStore" where
  "getStore x m storeName =
    (case stores m storeName of
       Some store \<Rightarrow> (m, store)
     | None \<Rightarrow>
        (let store = fst (buildCertificateStore x empty_Store)
         in (m\<lparr>stores := (stores m)(storeName \<mapsto> store)\<rparr>, store)))"

text \<open>Lines 239-244.\<close>

definition GetStore :: "externals \<Rightarrow> Manager \<Rightarrow> string \<Rightarrow> Manager \<times> CertificateStore" where
  "GetStore x m storeName = getStore x m storeName"

text \<open>
  What Get returns: the configuration, and what the two closures attached to it captured
  besides the Manager itself (the store and the name of the options).
\<close>

record hooked_Config =
  hooked_tlsConfig :: tls_Config
  hooked_store :: CertificateStore
  hooked_configName :: string

text \<open>Lines 91-111 and 227: the Manager after the call, the configuration and the error.\<close>

definition Get ::
  "externals \<Rightarrow> Manager \<Rightarrow> string \<Rightarrow> string \<Rightarrow> Manager \<times> hooked_Config \<times> error option" where
  "Get x m storeName configName =
    (let found = configs m configName;
         (m1, store) = getStore x m storeName;
         (tlsConfig, err) =
           (case found of
              None \<Rightarrow> (zero_Config, Some (UnknownTLSOptions configName))
            | Some config \<Rightarrow>
               (case buildTLSConfig x config of
                  Inl err \<Rightarrow> (zero_Config, Some err)
                | Inr built \<Rightarrow> (built, None)))
     in (m1,
         \<lparr>hooked_tlsConfig = tlsConfig, hooked_store = store, hooked_configName = configName\<rparr>,
         err))"

text \<open>
  Lines 205-224: the loop over the default certificates; the last argument is
  \<open>matchingCert\<close>, nil at the start.
\<close>

fun defaultCertificateLoop ::
  "externals \<Rightarrow> CertificateType \<Rightarrow> tls_Certificate list \<Rightarrow> tls_Certificate option \<Rightarrow>
   tls_Certificate option" where
  "defaultCertificateLoop x preferredType [] matchingCert = matchingCert"
| "defaultCertificateLoop x preferredType (cert # rest) matchingCert =
    (case GetCertificateType x cert of
       Inl err \<Rightarrow> defaultCertificateLoop x preferredType rest matchingCert
     | Inr certType \<Rightarrow>
        (if certType = EC \<and> preferredType = EC then Some cert
         else if certType = RSA then
           (if preferredType = RSA then Some cert
            else defaultCertificateLoop x preferredType rest (Some cert))
         else defaultCertificateLoop x preferredType rest matchingCert))"

text \<open>
  Line 200: \<open>m.configs[configName].SniStrict\<close>, read from the Manager when the hook
  runs; a name that is not in the map gives the zero Options.
\<close>

definition sniStrictOf :: "Manager \<Rightarrow> string \<Rightarrow> bool" where
  "sniStrictOf m configName =
    (case configs m configName of None \<Rightarrow> False | Some config \<Rightarrow> SniStrict config)"

text \<open>
  Lines 195-224: the hook after the ALPN provider had nothing.
\<close>

definition storeCertificate ::
  "externals \<Rightarrow> Manager \<Rightarrow> CertificateStore \<Rightarrow> string \<Rightarrow> ClientHelloInfo \<Rightarrow>
   error + tls_Certificate option" where
  "storeCertificate x m store configName clientHello =
    (case GetBestCertificate x store clientHello of
       Some bestCertificate \<Rightarrow> Inr (Some bestCertificate)
     | None \<Rightarrow>
        (if sniStrictOf m configName then
           Inl (StrictSNINoCertificate (CanonicalDomain x (hello_ServerName clientHello)))
         else
           Inr (defaultCertificateLoop x (getCertTypeForClientHello x clientHello)
                  (DefaultCertificates store) None)))"

text \<open>
  Lines 181-225: the GetCertificate closure. \<open>m\<close> is the Manager as it is when the
  hook runs (the closure reads \<open>m.TLSAlpnGetter\<close> and \<open>m.configs\<close> through the pointer);
  \<open>store\<close> and \<open>configName\<close> are what Get captured. \<open>Inr None\<close> is the return of a nil
  certificate with a nil error.
\<close>

definition GetCertificate ::
  "externals \<Rightarrow> Manager \<Rightarrow> CertificateStore \<Rightarrow> string \<Rightarrow> ClientHelloInfo \<Rightarrow>
   error + tls_Certificate option" where
  "GetCertificate x m store configName clientHello =
    (let domainToCheck = CanonicalDomain x (hello_ServerName clientHello) in
     case TLSAlpnGetter m of
       None \<Rightarrow> storeCertificate x m store configName clientHello
     | Some getter \<Rightarrow>
        (case getter domainToCheck of
           Inl err \<Rightarrow> Inl err
         | Inr (Some cert) \<Rightarrow> Inr (Some cert)
         | Inr None \<Rightarrow> storeCertificate x m store configName clientHello))"

text \<open>The two hooks of a configuration that Get returned.\<close>

definition hook_GetConfigForClient :: "hooked_Config \<Rightarrow> ClientHelloInfo \<Rightarrow> tls_Config" where
  "hook_GetConfigForClient h clientHello = GetConfigForClient (hooked_tlsConfig h) clientHello"

definition hook_GetCertificate ::
  "externals \<Rightarrow> Manager \<Rightarrow> hooked_Config \<Rightarrow> ClientHelloInfo \<Rightarrow> error + tls_Certificate option" where
  "hook_GetCertificate x m h clientHello =
    GetCertificate x m (hooked_store h) (hooked_configName h) clientHello"

text \<open>
  Lines 51-60: the stores are rebuilt into a new map; a store whose build fails is left
  out. The keys of the Go map are distinct, so the order of the list does not matter.
\<close>

fun buildStoresLoop ::
  "externals \<Rightarrow> (string \<times> Store) list \<Rightarrow> (string \<rightharpoonup> CertificateStore) \<Rightarrow>
   (string \<rightharpoonup> CertificateStore)" where
  "buildStoresLoop x [] built = built"
| "buildStoresLoop x ((storeName, storeConfig) # rest) built =
    (case buildCertificateStore x storeConfig of
       (store, Some err) \<Rightarrow> buildStoresLoop x rest built
     | (store, None) \<Rightarrow> buildStoresLoop x rest (built(storeName \<mapsto> store)))"

text \<open>Lines 64-70: a certificate that names no store goes to the store "default".\<close>

definition withDefaultStore :: "CertAndStores \<Rightarrow> CertAndStores" where
  "withDefaultStore conf =
    (if length (cas_Stores conf) = 0 then conf\<lparr>cas_Stores := [''default'']\<rparr> else conf)"

text \<open>Lines 71-76: the error of \<open>AppendCertificate\<close> is logged and dropped.\<close>

fun appendToStoresLoop ::
  "externals \<Rightarrow> Certificate \<Rightarrow> string list \<Rightarrow> storesCertificates \<Rightarrow> storesCertificates" where
  "appendToStoresLoop x cert [] storesCerts = storesCerts"
| "appendToStoresLoop x cert (store # rest) storesCerts =
    appendToStoresLoop x cert rest (fst (AppendCertificate x cert storesCerts store))"

text \<open>Lines 63-77.\<close>

fun certsLoop :: "externals \<Rightarrow> CertAndStores list \<Rightarrow> storesCertificates \<Rightarrow> storesCertificates" where
  "certsLoop x [] storesCerts = storesCerts"
| "certsLoop x (conf # rest) storesCerts =
    certsLoop x rest
      (appendToStoresLoop x (cas_Certificate conf) (cas_Stores (withDefaultStore conf)) storesCerts)"

text \<open>Lines 79-81: the dynamic certificates of each store are replaced.\<close>

fun setDynamicCertsLoop :: "externals \<Rightarrow> storesCertificates \<Rightarrow> Manager \<Rightarrow> Manager" where
  "setDynamicCertsLoop x [] m = m"
| "setDynamicCertsLoop x ((storeName, storeCerts) # rest) m =
    (let (m1, store) = getStore x m storeName
     in setDynamicCertsLoop x rest
          (m1\<lparr>stores := (stores m1)(storeName \<mapsto> store\<lparr>DynamicCerts := storeCerts\<rparr>)\<rparr>))"

text \<open>
  Lines 43-82. The elements of \<open>certs\<close> are pointers, so the default store name written
  at line 69 is seen through \<open>m.certs\<close> too. Every store of the new map is a new object:
  a store that an earlier Get handed to its closures is not written to.
\<close>

definition UpdateConfigs ::
  "externals \<Rightarrow> Manager \<Rightarrow> (string \<times> Store) list \<Rightarrow> (string \<rightharpoonup> Options) \<Rightarrow>
   CertAndStores list \<Rightarrow> Manager" where
  "UpdateConfigs x m newStores newConfigs newCerts =
    setDynamicCertsLoop x (certsLoop x newCerts [])
      (m\<lparr>configs := newConfigs, storesConfig := newStores,
         certs := map withDefaultStore newCerts,
         stores := buildStoresLoop x newStores Map.empty\<rparr>)"

section \<open>An environment to run the functions in\<close>

text \<open>
  One choice of the functions of the other packages, for evaluating the definitions
  above on concrete inputs: a source is read as its own content unless it is the path
  "missing.pem"; PEM data is accepted when it starts with "-----BEGIN"; a certificate is
  of type RSA or EC when its key is "RSA" or "EC"; a client prefers EC when it lists the
  suite 0xC02B (ECDHE-ECDSA with AES-128-GCM); a dynamic certificate matches when its
  host pattern is the server name; the tables hold a few entries of the package's.
\<close>

definition example_externals :: externals where
  "example_externals =
    \<lparr>Read = (\<lambda>f. if f = ''missing.pem'' then Inl (External ''no such file'') else Inr f),
     IsPath = (\<lambda>f. False),
     AppendCertsFromPEM = (\<lambda>data. take 10 data = ''-----BEGIN''),
     X509KeyPair = (\<lambda>certPEM keyPEM. Inr (TLSCertificate certPEM keyPEM)),
     generate_DefaultCertificate =
       (\<lambda>t. Inr (TLSCertificate ''TRAEFIK DEFAULT CERT'' (case t of RSA \<Rightarrow> ''RSA'' | EC \<Rightarrow> ''EC''))),
     GetCertificateType =
       (\<lambda>cert. if tc_PrivateKey cert = ''RSA'' then Inr RSA
               else if tc_PrivateKey cert = ''EC'' then Inr EC
               else Inl (External ''unknown key type'')),
     getCertTypeForClientHello =
       (\<lambda>clientHello. if 0xC02B \<in> set (hello_CipherSuites clientHello) then EC else RSA),
     CanonicalDomain = (\<lambda>domain. domain),
     GetBestCertificate =
       (\<lambda>store clientHello.
          map_of (map (\<lambda>(key, cert). (fst key, cert)) (DynamicCerts store))
            (hello_ServerName clientHello)),
     AppendCertificate =
       (\<lambda>cert storesCerts store.
          (storesCerts @
             [(store, [((CertFile cert, ''file''), TLSCertificate (CertFile cert) (KeyFile cert))])],
           None)),
     MinVersion_table = [''VersionTLS12'' \<mapsto> 0x0303, ''VersionTLS13'' \<mapsto> 0x0304],
     MaxVersion_table = [''VersionTLS12'' \<mapsto> 0x0303, ''VersionTLS13'' \<mapsto> 0x0304],
     CipherSuites_table =
       [''TLS_RSA_WITH_AES_128_CBC_SHA'' \<mapsto> 0x002F,
        ''TLS_ECDHE_RSA_WITH_AES_128_GCM_SHA256'' \<mapsto> 0xC02F,
        ''TLS_ECDHE_RSA_WITH_CHACHA20_POLY1305'' \<mapsto> 0xCCA8],
     CurveIDs_table = [''CurveP256'' \<mapsto> 23, ''X25519'' \<mapsto> 29]\<rparr>"

definition example_hello :: ClientHelloInfo where
  "example_hello = \<lparr>hello_ServerName = ''foo.example.com'', hello_CipherSuites = [0xC02F]\<rparr>"

section \<open>Properties of the cipher adaptation\<close>

lemma forceCiphersLoop_filter:
  "forceCiphersLoop cs acc = acc @ filter isChaChaCipherSuite cs"
  by (induction cs arbitrary: acc) (simp_all add: isChaChaCipherSuite_def)

lemma forcedLoop_replicate:
  "forcedLoop c fs acc = acc @ replicate (length (takeWhile (\<lambda>f. f \<noteq> c) fs)) c"
  by (induction fs arbitrary: acc) (simp_all add: replicate_app_Cons_same)

text \<open>
  What the two nested loops compute: after the forced suites, every configured suite
  once for each forced suite that stands before its own first occurrence among them (for
  a suite that is not forced: once for each forced suite).
\<close>

lemma newCipherSuitesLoop_concat:
  "newCipherSuitesLoop cs fs acc =
     acc @ concat (map (\<lambda>c. replicate (length (takeWhile (\<lambda>f. f \<noteq> c) fs)) c) cs)"
  by (induction cs arbitrary: acc) (simp_all add: forcedLoop_replicate)

text \<open>A client whose first suite is not a ChaCha suite gets the configuration as it is.\<close>

lemma GetConfigForClient_other_client:
  "hello_CipherSuites clientHello = first # others \<Longrightarrow> \<not> isChaChaCipherSuite first \<Longrightarrow>
   GetConfigForClient tlsConfig clientHello = tlsConfig"
  by (simp add: GetConfigForClient_def split: option.splits)

text \<open>
  C1. The claim: a ChaCha-first client gets the configured ChaCha suites first and then
  the other configured suites once each, so that [A, B, C, D] with B and D classified
  becomes [B, D, A, C]. The closure run on that input (A = 0xC02F, B = 0xCCA8,
  C = 0xC030, D = 0xCCA9, client list [0xCCA8]) returns [B, D, A, A, C, C, D]: every
  other suite twice, once for each forced suite, and D again after B.
\<close>

theorem GetConfigForClient_repeats_suites:
  "conf_CipherSuites
     (GetConfigForClient
        (zero_Config\<lparr>conf_CipherSuites := Some [0xC02F, 0xCCA8, 0xC030, 0xCCA9]\<rparr>)
        \<lparr>hello_ServerName = ''example.com'', hello_CipherSuites = [0xCCA8]\<rparr>)
   = Some [0xCCA8, 0xCCA9, 0xC02F, 0xC02F, 0xC030, 0xC030, 0xCCA9]"
  by (simp add: GetConfigForClient_def isChaChaCipherSuite_def zero_Config_def
      TLS_CHACHA20_POLY1305_SHA256_def TLS_ECDHE_RSA_WITH_CHACHA20_POLY1305_def
      TLS_ECDHE_ECDSA_WITH_CHACHA20_POLY1305_def)

section \<open>Properties of buildTLSConfig\<close>

lemma cipherSuitesLoop_resolved:
  "set names \<subseteq> dom (CipherSuites_table x) \<Longrightarrow>
   cipherSuitesLoop x names acc = Inr (acc @ map (\<lambda>c. the (CipherSuites_table x c)) names)"
  by (induction names arbitrary: acc) auto









text \<open>The stages other than the cipher stage do not read the cipher names.\<close>

lemma clientCAsStage_no_ciphers:
  "clientCAsStage x (tlsOption\<lparr>CipherSuites := v\<rparr>) conf = clientCAsStage x tlsOption conf"
  by (simp add: clientCAsStage_def)

lemma clientAuthStage_no_ciphers:
  "clientAuthStage (tlsOption\<lparr>CipherSuites := v\<rparr>) conf = clientAuthStage tlsOption conf"
  by (simp add: clientAuthStage_def)

lemma versionStage_no_ciphers:
  "versionStage x (tlsOption\<lparr>CipherSuites := v\<rparr>) conf = versionStage x tlsOption conf"
  by (simp add: versionStage_def)

lemma curvePreferencesStage_no_ciphers:
  "curvePreferencesStage x (tlsOption\<lparr>CipherSuites := v\<rparr>) conf =
   curvePreferencesStage x tlsOption conf"
  by (simp add: curvePreferencesStage_def)

lemma curvePreferencesStage_ciphers:
  "curvePreferencesStage x tlsOption (conf\<lparr>conf_CipherSuites := v\<rparr>) =
     (case curvePreferencesStage x tlsOption conf of
        Inl err \<Rightarrow> Inl err
      | Inr conf' \<Rightarrow> Inr (conf'\<lparr>conf_CipherSuites := v\<rparr>))"
  by (simp add: curvePreferencesStage_def split: option.splits sum.splits)

lemma buildTLSConfig_without_ciphers:
  assumes "CipherSuites tlsOption = Some names"
      and "set names \<subseteq> dom (CipherSuites_table x)"
  shows "buildTLSConfig x tlsOption =
           (case buildTLSConfig x (tlsOption\<lparr>CipherSuites := None\<rparr>) of
              Inl err \<Rightarrow> Inl err
            | Inr conf \<Rightarrow>
               Inr (conf\<lparr>conf_CipherSuites :=
                      Some (map (\<lambda>c. the (CipherSuites_table x c)) names)\<rparr>))"
  using assms
  by (simp add: buildTLSConfig_def cipherSuitesStage_def cipherSuitesLoop_resolved
      clientCAsStage_no_ciphers clientAuthStage_no_ciphers versionStage_no_ciphers
      curvePreferencesStage_no_ciphers curvePreferencesStage_ciphers
      split: sum.splits)

text \<open>
  C7. With no CA file, the policy strings "VerifyClientCertIfGiven" and
  "RequireAndVerifyClientCert" make buildTLSConfig fail with the error that CAFiles is
  required, whatever the rest of the Options.
\<close>

theorem buildTLSConfig_verify_requires_CAFiles:
  assumes "CAFiles (ClientAuth tlsOption) = []"
      and "ClientAuthType (ClientAuth tlsOption) = ''VerifyClientCertIfGiven'' \<or>
           ClientAuthType (ClientAuth tlsOption) = ''RequireAndVerifyClientCert''"
  shows "buildTLSConfig x tlsOption =
           Inl (InvalidClientAuthType (ClientAuthType (ClientAuth tlsOption)))"
  using assms
  by (auto simp add: buildTLSConfig_def clientCAsStage_def clientAuthStage_def zero_Config_def)

theorem buildTLSConfig_verify_requires_CAFiles_witness:
  "buildTLSConfig example_externals
     (DefaultTLSOptions\<lparr>ClientAuth :=
        \<lparr>CAFiles = [], ClientAuthType = ''RequireAndVerifyClientCert''\<rparr>\<rparr>) =
   Inl (InvalidClientAuthType ''RequireAndVerifyClientCert'') \<and>
   buildTLSConfig example_externals
     (DefaultTLSOptions\<lparr>ClientAuth :=
        \<lparr>CAFiles = [], ClientAuthType = ''VerifyClientCertIfGiven''\<rparr>\<rparr>) =
   Inl (InvalidClientAuthType ''VerifyClientCertIfGiven'')"
  using buildTLSConfig_verify_requires_CAFiles
          [of "DefaultTLSOptions\<lparr>ClientAuth :=
                 \<lparr>CAFiles = [], ClientAuthType = ''RequireAndVerifyClientCert''\<rparr>\<rparr>"
              example_externals]
        buildTLSConfig_verify_requires_CAFiles
          [of "DefaultTLSOptions\<lparr>ClientAuth :=
                 \<lparr>CAFiles = [], ClientAuthType = ''VerifyClientCertIfGiven''\<rparr>\<rparr>"
              example_externals]
  by simp

text \<open>
  C8, as amended. When every configured cipher name is in the table, the cipher list
  never makes buildTLSConfig fail: it returns what it returns for the same Options
  without a cipher list (the same error, if the CA files, the client-auth policy or the
  curves are refused), and every configuration it returns has as cipher list exactly the
  identifiers the names resolve to, in the configured order.
\<close>

theorem buildTLSConfig_cipher_roundtrip:
  assumes "CipherSuites tlsOption = Some names"
      and "set names \<subseteq> dom (CipherSuites_table x)"
  shows "buildTLSConfig x tlsOption =
           (case buildTLSConfig x (tlsOption\<lparr>CipherSuites := None\<rparr>) of
              Inl err \<Rightarrow> Inl err
            | Inr conf \<Rightarrow>
               Inr (conf\<lparr>conf_CipherSuites :=
                      Some (map (\<lambda>c. the (CipherSuites_table x c)) names)\<rparr>)) \<and>
         (\<forall>conf. buildTLSConfig x tlsOption = Inr conf \<longrightarrow>
            conf_CipherSuites conf = Some (map (\<lambda>c. the (CipherSuites_table x c)) names))"
  using buildTLSConfig_without_ciphers [OF assms]
  by (auto split: sum.splits)

theorem buildTLSConfig_cipher_roundtrip_witness:
  "buildTLSConfig example_externals
     (DefaultTLSOptions\<lparr>CipherSuites :=
        Some [''TLS_ECDHE_RSA_WITH_CHACHA20_POLY1305'', ''TLS_RSA_WITH_AES_128_CBC_SHA'']\<rparr>) =
   Inr (zero_Config\<lparr>conf_NextProtos := [''h2'', ''http/1.1'', ''acme-tls/1''],
          conf_CipherSuites := Some [0xCCA8, 0x002F]\<rparr>)"
proof -
  let ?names = "[''TLS_ECDHE_RSA_WITH_CHACHA20_POLY1305'', ''TLS_RSA_WITH_AES_128_CBC_SHA'']"
  have given: "CipherSuites (DefaultTLSOptions\<lparr>CipherSuites := Some ?names\<rparr>) = Some ?names"
    by simp
  have known: "set ?names \<subseteq> dom (CipherSuites_table example_externals)"
    by (simp add: example_externals_def)
  have rest: "buildTLSConfig example_externals
      (DefaultTLSOptions\<lparr>CipherSuites := Some ?names, CipherSuites := None\<rparr>) =
      Inr (zero_Config\<lparr>conf_NextProtos := [''h2'', ''http/1.1'', ''acme-tls/1'']\<rparr>)"
    by (simp add: buildTLSConfig_def clientCAsStage_def clientAuthStage_def versionStage_def
        cipherSuitesStage_def curvePreferencesStage_def DefaultTLSOptions_def
        example_externals_def)
  from buildTLSConfig_cipher_roundtrip [OF given known] rest show ?thesis
    by (simp add: example_externals_def)
qed

text \<open>
  The claim as it was stated, that such Options always build: the cipher name is in the
  table, and the build fails on the client-auth policy.
\<close>

theorem buildTLSConfig_known_ciphers_fail:
  "CipherSuites_table example_externals ''TLS_RSA_WITH_AES_128_CBC_SHA'' = Some 0x002F \<and>
   buildTLSConfig example_externals
     (DefaultTLSOptions\<lparr>CipherSuites := Some [''TLS_RSA_WITH_AES_128_CBC_SHA''],
        ClientAuth := \<lparr>CAFiles = [], ClientAuthType = ''RequireAndVerifyClientCert''\<rparr>\<rparr>) =
   Inl (InvalidClientAuthType ''RequireAndVerifyClientCert'')"
  by (simp add: buildTLSConfig_def clientCAsStage_def clientAuthStage_def
      DefaultTLSOptions_def example_externals_def zero_Config_def)




section \<open>Properties of buildCertificateStore\<close>

lemma hasRSALoop_iff:
  "hasRSALoop x defaults \<longleftrightarrow> (\<exists>c\<in>set defaults. GetCertificateType x c = Inr RSA)"
  by (induction defaults) (auto split: sum.splits)

lemma ensureRSACertificate_has_RSA:
  assumes "\<forall>c. generate_DefaultCertificate x RSA = Inr c \<longrightarrow> GetCertificateType x c = Inr RSA"
      and "ensureRSACertificate x certificateStore generated = (built, None)"
      and "generated \<longrightarrow>
             (\<exists>c\<in>set (DefaultCertificates certificateStore). GetCertificateType x c = Inr RSA)"
  shows "\<exists>c\<in>set (DefaultCertificates built). GetCertificateType x c = Inr RSA"
  using assms
  by (auto simp add: ensureRSACertificate_def hasRSALoop_iff Let_def split: if_splits sum.splits)

text \<open>The store built when no default certificate is configured.\<close>

lemma buildCertificateStore_generated:
  assumes "Store_DefaultCertificates tlsStore = []" and "Store_DefaultCertificate tlsStore = None"
  shows "buildCertificateStore x tlsStore =
    (case generate_DefaultCertificate x RSA of
       Inl err \<Rightarrow> (\<lparr>DynamicCerts = [], DefaultCertificates = []\<rparr>, Some err)
     | Inr rsaCert \<Rightarrow>
        (case generate_DefaultCertificate x EC of
           Inl err \<Rightarrow> (\<lparr>DynamicCerts = [], DefaultCertificates = []\<rparr>, Some err)
         | Inr ecCert \<Rightarrow> (\<lparr>DynamicCerts = [], DefaultCertificates = [rsaCert, ecCert]\<rparr>, None)))"
  using assms
  by (simp add: buildCertificateStore_def ensureRSACertificate_def Let_def split: sum.splits)

lemma buildCertificateStore_has_RSA:
  assumes sound: "\<forall>c. generate_DefaultCertificate x RSA = Inr c \<longrightarrow>
                      GetCertificateType x c = Inr RSA"
      and built: "buildCertificateStore x tlsStore = (certificateStore, None)"
  shows "\<exists>c\<in>set (DefaultCertificates certificateStore). GetCertificateType x c = Inr RSA"
proof (cases "0 < length (Store_DefaultCertificates tlsStore)")
  case True
  with built obtain cert where
    "ensureRSACertificate x \<lparr>DynamicCerts = [], DefaultCertificates = cert\<rparr> False =
       (certificateStore, None)"
    by (auto simp add: buildCertificateStore_def Let_def split: sum.splits)
  from ensureRSACertificate_has_RSA [OF sound this] show ?thesis by simp
next
  case False
  show ?thesis
  proof (cases "Store_DefaultCertificate tlsStore")
    case (Some defaultCertificate)
    with False built obtain cert where
      "ensureRSACertificate x \<lparr>DynamicCerts = [], DefaultCertificates = [cert]\<rparr> False =
         (certificateStore, None)"
      by (auto simp add: buildCertificateStore_def Let_def split: sum.splits)
    from ensureRSACertificate_has_RSA [OF sound this] show ?thesis by simp
  next
    case None
    with False built sound show ?thesis
      by (auto simp add: buildCertificateStore_generated split: sum.splits)
  qed
qed

lemma example_generator_sound:
  "\<forall>t c. generate_DefaultCertificate example_externals t = Inr c \<longrightarrow>
     GetCertificateType example_externals c = Inr t"
  by (auto simp add: example_externals_def split: CertificateType.splits)

lemma example_empty_Store:
  "buildCertificateStore example_externals empty_Store =
    (\<lparr>DynamicCerts = [],
      DefaultCertificates =
        [TLSCertificate ''TRAEFIK DEFAULT CERT'' ''RSA'',
         TLSCertificate ''TRAEFIK DEFAULT CERT'' ''EC'']\<rparr>,
     None)"
  by (simp add: buildCertificateStore_def ensureRSACertificate_def example_externals_def
      empty_Store_def)

text \<open>
  C2, as amended. With a provider of default certificates that returns a certificate of
  the algorithm asked for, a store built without error holds a default certificate of
  type RSA; and when the store configures no default certificate, its defaults are the
  generated RSA certificate and the generated EC certificate. A default of type EC is
  not promised otherwise.
\<close>

theorem buildCertificateStore_defaults:
  assumes sound: "\<forall>t c. generate_DefaultCertificate x t = Inr c \<longrightarrow>
                        GetCertificateType x c = Inr t"
      and built: "buildCertificateStore x tlsStore = (certificateStore, None)"
  shows "(\<exists>c\<in>set (DefaultCertificates certificateStore). GetCertificateType x c = Inr RSA) \<and>
         (Store_DefaultCertificates tlsStore = [] \<and> Store_DefaultCertificate tlsStore = None \<longrightarrow>
            (\<exists>rsaCert ecCert.
               generate_DefaultCertificate x RSA = Inr rsaCert \<and>
               generate_DefaultCertificate x EC = Inr ecCert \<and>
               DefaultCertificates certificateStore = [rsaCert, ecCert] \<and>
               GetCertificateType x rsaCert = Inr RSA \<and> GetCertificateType x ecCert = Inr EC))"
proof
  from sound have "\<forall>c. generate_DefaultCertificate x RSA = Inr c \<longrightarrow>
      GetCertificateType x c = Inr RSA"
    by blast
  from buildCertificateStore_has_RSA [OF this built]
  show "\<exists>c\<in>set (DefaultCertificates certificateStore). GetCertificateType x c = Inr RSA" .
next
  show "Store_DefaultCertificates tlsStore = [] \<and> Store_DefaultCertificate tlsStore = None \<longrightarrow>
            (\<exists>rsaCert ecCert.
               generate_DefaultCertificate x RSA = Inr rsaCert \<and>
               generate_DefaultCertificate x EC = Inr ecCert \<and>
               DefaultCertificates certificateStore = [rsaCert, ecCert] \<and>
               GetCertificateType x rsaCert = Inr RSA \<and> GetCertificateType x ecCert = Inr EC)"
    using sound built
    by (auto simp add: buildCertificateStore_generated split: sum.splits)
qed

theorem buildCertificateStore_defaults_witness:
  "buildCertificateStore example_externals empty_Store =
     (\<lparr>DynamicCerts = [],
       DefaultCertificates =
         [TLSCertificate ''TRAEFIK DEFAULT CERT'' ''RSA'',
          TLSCertificate ''TRAEFIK DEFAULT CERT'' ''EC'']\<rparr>,
      None) \<and>
   GetCertificateType example_externals (TLSCertificate ''TRAEFIK DEFAULT CERT'' ''RSA'') = Inr RSA \<and>
   GetCertificateType example_externals (TLSCertificate ''TRAEFIK DEFAULT CERT'' ''EC'') = Inr EC"
  using buildCertificateStore_defaults [OF example_generator_sound example_empty_Store]
    example_empty_Store
  by (simp add: empty_Store_def example_externals_def)

text \<open>
  The claim as it was stated, that a built store always holds a default of type EC too: a
  store configured with one RSA certificate is built without error and holds that
  certificate alone.
\<close>

theorem buildCertificateStore_RSA_only:
  "buildCertificateStore example_externals
     \<lparr>Store_DefaultCertificates = [\<lparr>CertFile = ''site.crt'', KeyFile = ''RSA''\<rparr>],
      Store_DefaultCertificate = None\<rparr> =
   (\<lparr>DynamicCerts = [], DefaultCertificates = [TLSCertificate ''site.crt'' ''RSA'']\<rparr>, None) \<and>
   map (GetCertificateType example_externals) [TLSCertificate ''site.crt'' ''RSA''] = [Inr RSA]"
  by (simp add: buildCertificateStore_def buildDefaultCertificates_def
      buildDefaultCertificate_def ensureRSACertificate_def example_externals_def)

section \<open>Properties of the certificate hook\<close>

lemma find_snoc:
  "find P (xs @ [y]) =
     (case find P xs of Some z \<Rightarrow> Some z | None \<Rightarrow> (if P y then Some y else None))"
  by (induction xs) auto

text \<open>
  The loop over the default certificates, for any list and any starting value: the first
  certificate of the preferred type if there is one, otherwise the last certificate of
  type RSA, otherwise the starting value. A preferred type of RSA never selects an EC
  certificate.
\<close>

lemma defaultCertificateLoop_find:
  "defaultCertificateLoop x preferredType defaults matchingCert =
     (case find (\<lambda>c. GetCertificateType x c = Inr preferredType) defaults of
        Some c \<Rightarrow> Some c
      | None \<Rightarrow>
         (case find (\<lambda>c. GetCertificateType x c = Inr RSA) (rev defaults) of
            Some c \<Rightarrow> Some c
          | None \<Rightarrow> matchingCert))"
proof (induction defaults arbitrary: matchingCert)
  case Nil
  show ?case by simp
next
  case (Cons cert rest)
  show ?case
  proof (cases "GetCertificateType x cert")
    case (Inl err)
    then show ?thesis by (simp add: Cons.IH find_snoc split: option.splits)
  next
    case (Inr certType)
    with Cons.IH show ?thesis
      by (cases certType; cases preferredType)
         (simp_all add: find_snoc split: option.splits)
  qed
qed

lemma find_rev_Some:
  "\<exists>c\<in>set defaults. P c \<Longrightarrow> \<exists>c\<in>set defaults. find P (rev defaults) = Some c"
  by (metis find_None_iff2 find_Some_iff not_Some_eq nth_mem set_rev)

lemma defaultCertificateLoop_Some:
  assumes "\<exists>c\<in>set defaults. GetCertificateType x c = Inr RSA"
  shows "\<exists>c\<in>set defaults. defaultCertificateLoop x preferredType defaults None = Some c"
proof (cases "find (\<lambda>c. GetCertificateType x c = Inr preferredType) defaults")
  case None
  with find_rev_Some [OF assms] show ?thesis
    by (auto simp add: defaultCertificateLoop_find)
next
  case (Some c)
  then have "c \<in> set defaults"
    by (metis find_Some_iff nth_mem)
  with Some show ?thesis
    by (simp add: defaultCertificateLoop_find)
qed

text \<open>
  C3, as amended. For a store built without error (the provider's RSA certificate being
  of type RSA) and every preferred type, the loop over the defaults returns the first
  default of the preferred type; when there is none it returns the last default of type
  RSA, not the first, and never an EC default for a preferred type of RSA. It always
  returns one of the store's defaults.
\<close>

theorem defaultCertificateLoop_selects:
  assumes sound: "\<forall>c. generate_DefaultCertificate x RSA = Inr c \<longrightarrow>
                      GetCertificateType x c = Inr RSA"
      and built: "buildCertificateStore x tlsStore = (store, None)"
  shows "defaultCertificateLoop x preferredType (DefaultCertificates store) None =
           (case find (\<lambda>c. GetCertificateType x c = Inr preferredType)
                   (DefaultCertificates store) of
              Some c \<Rightarrow> Some c
            | None \<Rightarrow>
               find (\<lambda>c. GetCertificateType x c = Inr RSA) (rev (DefaultCertificates store))) \<and>
         (\<exists>c\<in>set (DefaultCertificates store).
            defaultCertificateLoop x preferredType (DefaultCertificates store) None = Some c)"
  using defaultCertificateLoop_Some [OF buildCertificateStore_has_RSA [OF sound built]]
  by (simp add: defaultCertificateLoop_find split: option.splits)

theorem defaultCertificateLoop_selects_witness:
  "defaultCertificateLoop example_externals EC
     (DefaultCertificates (fst (buildCertificateStore example_externals empty_Store))) None =
   Some (TLSCertificate ''TRAEFIK DEFAULT CERT'' ''EC'') \<and>
   defaultCertificateLoop example_externals RSA
     (DefaultCertificates (fst (buildCertificateStore example_externals empty_Store))) None =
   Some (TLSCertificate ''TRAEFIK DEFAULT CERT'' ''RSA'')"
proof -
  have sound: "\<forall>c. generate_DefaultCertificate example_externals RSA = Inr c \<longrightarrow>
      GetCertificateType example_externals c = Inr RSA"
    using example_generator_sound by blast
  from defaultCertificateLoop_selects [OF sound example_empty_Store, of EC]
    defaultCertificateLoop_selects [OF sound example_empty_Store, of RSA]
    example_empty_Store
  show ?thesis
    by (simp add: example_externals_def)
qed

text \<open>
  The claim as it was stated, that an EC preference with no EC default gets the first RSA
  default: a store built from two RSA certificates returns the second.
\<close>

theorem defaultCertificateLoop_last_RSA:
  "buildCertificateStore example_externals
     \<lparr>Store_DefaultCertificates =
        [\<lparr>CertFile = ''first.crt'', KeyFile = ''RSA''\<rparr>,
         \<lparr>CertFile = ''second.crt'', KeyFile = ''RSA''\<rparr>],
      Store_DefaultCertificate = None\<rparr> =
   (\<lparr>DynamicCerts = [],
     DefaultCertificates =
       [TLSCertificate ''first.crt'' ''RSA'', TLSCertificate ''second.crt'' ''RSA'']\<rparr>,
    None) \<and>
   map (GetCertificateType example_externals)
     [TLSCertificate ''first.crt'' ''RSA'', TLSCertificate ''second.crt'' ''RSA''] =
   [Inr RSA, Inr RSA] \<and>
   defaultCertificateLoop example_externals EC
     [TLSCertificate ''first.crt'' ''RSA'', TLSCertificate ''second.crt'' ''RSA''] None =
   Some (TLSCertificate ''second.crt'' ''RSA'') \<and>
   TLSCertificate ''second.crt'' ''RSA'' \<noteq> TLSCertificate ''first.crt'' ''RSA''"
  by (simp add: buildCertificateStore_def buildDefaultCertificates_def
      buildDefaultCertificate_def ensureRSACertificate_def example_externals_def)

section \<open>Properties of Get, getStore and UpdateConfigs\<close>

lemma getStore_frame:
  "configs (fst (getStore x m storeName)) = configs m \<and>
   TLSAlpnGetter (fst (getStore x m storeName)) = TLSAlpnGetter m"
  by (simp add: getStore_def Let_def split: option.splits)

lemma Get_captures:
  "hooked_store (fst (snd (Get x m storeName configName))) = snd (getStore x m storeName) \<and>
   hooked_configName (fst (snd (Get x m storeName configName))) = configName \<and>
   fst (Get x m storeName configName) = fst (getStore x m storeName)"
  by (simp add: Get_def Let_def split: prod.splits)


lemma setDynamicCertsLoop_frame:
  "configs (setDynamicCertsLoop x storesCerts m) = configs m \<and>
   TLSAlpnGetter (setDynamicCertsLoop x storesCerts m) = TLSAlpnGetter m"
proof (induction storesCerts arbitrary: m)
  case Nil
  show ?case by simp
next
  case (Cons entry rest)
  obtain storeName storeCerts where entry: "entry = (storeName, storeCerts)"
    by (cases entry)
  obtain m1 store where got: "getStore x m storeName = (m1, store)"
    by (cases "getStore x m storeName")
  with getStore_frame [of x m storeName] show ?case
    by (simp add: entry Cons.IH)
qed

text \<open>UpdateConfigs replaces the options of the Manager and keeps its ALPN provider.\<close>

lemma UpdateConfigs_configs:
  "configs (UpdateConfigs x m newStores newConfigs newCerts) = newConfigs \<and>
   TLSAlpnGetter (UpdateConfigs x m newStores newConfigs newCerts) = TLSAlpnGetter m"
  by (simp add: UpdateConfigs_def setDynamicCertsLoop_frame)

text \<open>
  What the certificate hook reads of the Manager when it runs: the ALPN provider and the
  strictness of the options under the captured name. The configuration hook reads
  nothing of it.
\<close>

lemma GetCertificate_reads:
  "TLSAlpnGetter m = TLSAlpnGetter m' \<Longrightarrow> sniStrictOf m configName = sniStrictOf m' configName \<Longrightarrow>
   GetCertificate x m store configName clientHello = GetCertificate x m' store configName clientHello"
  by (simp add: GetCertificate_def storeCertificate_def split: option.splits sum.splits)

lemma example_default_store:
  "snd (getStore example_externals NewManager ''default'') =
    \<lparr>DynamicCerts = [],
      DefaultCertificates =
        [TLSCertificate ''TRAEFIK DEFAULT CERT'' ''RSA'',
         TLSCertificate ''TRAEFIK DEFAULT CERT'' ''EC'']\<rparr>"
  by (simp add: getStore_def NewManager_def example_empty_Store Let_def)



text \<open>
  C5, as amended. For a store name that the registry does not hold, getStore (and so
  GetStore and Get) returns the store that buildCertificateStore builds for the empty
  store configuration, and registers it under the name; the unknown name adds no error
  to what Get returns. That store has no dynamic certificate; its default certificates
  are the generated RSA and EC certificates, and it has none only when the generation
  fails.
\<close>

theorem getStore_unknown:
  assumes "stores m storeName = None"
  shows "getStore x m storeName =
           (m\<lparr>stores := (stores m)(storeName \<mapsto> fst (buildCertificateStore x empty_Store))\<rparr>,
            fst (buildCertificateStore x empty_Store)) \<and>
         GetStore x m storeName = getStore x m storeName \<and>
         hooked_store (fst (snd (Get x m storeName configName))) =
           fst (buildCertificateStore x empty_Store) \<and>
         snd (snd (Get x m storeName configName)) =
           (case configs m configName of
              None \<Rightarrow> Some (UnknownTLSOptions configName)
            | Some config \<Rightarrow>
               (case buildTLSConfig x config of Inl err \<Rightarrow> Some err | Inr built \<Rightarrow> None)) \<and>
         DynamicCerts (fst (buildCertificateStore x empty_Store)) = [] \<and>
         DefaultCertificates (fst (buildCertificateStore x empty_Store)) =
           (case generate_DefaultCertificate x RSA of
              Inl err \<Rightarrow> []
            | Inr rsaCert \<Rightarrow>
               (case generate_DefaultCertificate x EC of
                  Inl err \<Rightarrow> []
                | Inr ecCert \<Rightarrow> [rsaCert, ecCert]))"
  using assms
  by (simp add: getStore_def GetStore_def Get_def Let_def buildCertificateStore_generated
      empty_Store_def split: sum.splits option.splits prod.splits)

theorem getStore_unknown_witness:
  "getStore example_externals NewManager ''unknown'' =
     (NewManager\<lparr>stores := (stores NewManager)(''unknown'' \<mapsto>
         fst (buildCertificateStore example_externals empty_Store))\<rparr>,
      fst (buildCertificateStore example_externals empty_Store)) \<and>
   DefaultCertificates (fst (buildCertificateStore example_externals empty_Store)) =
     [TLSCertificate ''TRAEFIK DEFAULT CERT'' ''RSA'', TLSCertificate ''TRAEFIK DEFAULT CERT'' ''EC'']"
proof -
  have "stores NewManager ''unknown'' = None"
    by (simp add: NewManager_def)
  from getStore_unknown [OF this, of example_externals] show ?thesis
    by (simp add: example_externals_def)
qed

text \<open>
  The claim as it was stated, that the store of an unknown name has no default
  certificates: with a provider that generates, it has two.
\<close>

theorem getStore_unknown_has_defaults:
  "stores NewManager ''unknown'' = None \<and>
   DefaultCertificates (snd (getStore example_externals NewManager ''unknown'')) =
     [TLSCertificate ''TRAEFIK DEFAULT CERT'' ''RSA'', TLSCertificate ''TRAEFIK DEFAULT CERT'' ''EC'']"
  by (simp add: getStore_def NewManager_def example_empty_Store Let_def)

text \<open>
  C6. The claim: what the hooks of a returned configuration produce does not change
  when UpdateConfigs replaces the registry afterwards. The certificate hook reads
  \<open>m.configs[configName].SniStrict\<close> from the Manager when it runs: for the configuration
  that Get returns on the new Manager (options "default", not strict) and a client hello
  for foo.example.com, the hook returns the generated RSA default; after
  UpdateConfigs with options "default" that are strict, the same hook of the same
  configuration fails with the strict-SNI error.
\<close>

theorem GetCertificate_follows_reload:
  "hook_GetCertificate example_externals
     (fst (Get example_externals NewManager ''default'' ''default''))
     (fst (snd (Get example_externals NewManager ''default'' ''default''))) example_hello =
   Inr (Some (TLSCertificate ''TRAEFIK DEFAULT CERT'' ''RSA'')) \<and>
   hook_GetCertificate example_externals
     (UpdateConfigs example_externals
        (fst (Get example_externals NewManager ''default'' ''default''))
        [] [''default'' \<mapsto> DefaultTLSOptions\<lparr>SniStrict := True\<rparr>] [])
     (fst (snd (Get example_externals NewManager ''default'' ''default''))) example_hello =
   Inl (StrictSNINoCertificate ''foo.example.com'')"
proof -
  have before:
    "sniStrictOf (fst (getStore example_externals NewManager ''default'')) ''default'' = False"
    by (simp add: sniStrictOf_def getStore_frame NewManager_def DefaultTLSOptions_def)
  have after: "sniStrictOf (UpdateConfigs example_externals
        (fst (getStore example_externals NewManager ''default''))
        [] [''default'' \<mapsto> DefaultTLSOptions\<lparr>SniStrict := True\<rparr>] []) ''default'' = True"
    by (simp add: sniStrictOf_def UpdateConfigs_configs)
  have getter: "TLSAlpnGetter (fst (getStore example_externals NewManager ''default'')) = None"
    by (simp add: getStore_frame NewManager_def)
  show ?thesis
    by (simp add: hook_GetCertificate_def GetCertificate_def storeCertificate_def Get_captures
        example_default_store before after getter UpdateConfigs_configs)
       (simp add: example_externals_def example_hello_def)
qed

text \<open>
  C10. When the Manager has an ALPN provider and the provider returns an error for the
  canonical domain of the client hello, the certificate hook returns that error,
  whatever the store holds and whether or not the options are strict.
\<close>

theorem GetCertificate_alpn_error:
  assumes "TLSAlpnGetter m = Some getter"
      and "getter (CanonicalDomain x (hello_ServerName clientHello)) = Inl err"
  shows "GetCertificate x m store configName clientHello = Inl err"
  using assms by (simp add: GetCertificate_def)

theorem GetCertificate_alpn_error_witness:
  "sniStrictOf (NewManager\<lparr>TLSAlpnGetter := Some (\<lambda>domain. Inl (External ''no challenge''))\<rparr>)
     ''default'' = False \<and>
   GetCertificate example_externals
     (NewManager\<lparr>TLSAlpnGetter := Some (\<lambda>domain. Inl (External ''no challenge''))\<rparr>)
     (fst (buildCertificateStore example_externals empty_Store)) ''default'' example_hello =
   Inl (External ''no challenge'') \<and>
   GetCertificate example_externals NewManager
     (fst (buildCertificateStore example_externals empty_Store)) ''default'' example_hello =
   Inr (Some (TLSCertificate ''TRAEFIK DEFAULT CERT'' ''RSA''))"
proof -
  have provider: "TLSAlpnGetter
      (NewManager\<lparr>TLSAlpnGetter := Some (\<lambda>domain. Inl (External ''no challenge''))\<rparr>) =
      Some (\<lambda>domain. Inl (External ''no challenge''))"
    by simp
  have fails: "(\<lambda>domain. Inl (External ''no challenge'') :: error + tls_Certificate option)
      (CanonicalDomain example_externals (hello_ServerName example_hello)) =
      Inl (External ''no challenge'')"
    by simp
  have lenient: "sniStrictOf
      (NewManager\<lparr>TLSAlpnGetter := Some (\<lambda>domain. Inl (External ''no challenge''))\<rparr>)
      ''default'' = False"
    by (simp add: sniStrictOf_def NewManager_def DefaultTLSOptions_def)
  have without: "GetCertificate example_externals NewManager
      (fst (buildCertificateStore example_externals empty_Store)) ''default'' example_hello =
      Inr (Some (TLSCertificate ''TRAEFIK DEFAULT CERT'' ''RSA''))"
    by (simp add: GetCertificate_def storeCertificate_def sniStrictOf_def NewManager_def
        DefaultTLSOptions_def example_empty_Store)
       (simp add: example_externals_def example_hello_def)
  from GetCertificate_alpn_error [OF provider fails] lenient without show ?thesis
    by simp
qed

end
